theory Spec2Isabelle
  imports Main "HOL-Library.Sublist"
begin

section \<open>Python values\<close>

text \<open>
  The hook reads one JSON document and works on the value \<open>json.loads\<close> returns.
  That value is modelled by \<open>json\<close>: \<open>None\<close>, booleans, integers, strings, lists and
  dictionaries (a dictionary is its key/value list, read with \<open>map_of\<close>). A string is a
  list of \<open>char\<close>; the model follows Python on ASCII text, and the two characters
  outside ASCII that the hook itself writes are given by their UTF-8 bytes.
  Floating-point numbers are not part of the model.
\<close>

datatype json =
    JNull
  | JBool bool
  | JInt int
  | JStr string
  | JList "json list"
  | JObj "(string \<times> json) list"

text \<open>
  The exceptions the hook can meet. The first four are raised by the hook's own
  operations; \<open>Raised n\<close> is an exception of a class \<open>n\<close> derived from \<open>Exception\<close>,
  raised by a collaborator or by reading the standard input. \<open>SystemExit\<close> and
  \<open>KeyboardInterrupt\<close>, which a collaborator or the reading of the standard input can
  raise as well, derive from \<open>BaseException\<close> and not from \<open>Exception\<close>.
\<close>

datatype exn =
    JSONDecodeError
  | AttributeError
  | TypeError
  | KeyError
  | Raised string
  | SystemExit
  | KeyboardInterrupt

fun type_name :: "exn \<Rightarrow> string" where
  "type_name JSONDecodeError = ''JSONDecodeError''"
| "type_name AttributeError = ''AttributeError''"
| "type_name TypeError = ''TypeError''"
| "type_name KeyError = ''KeyError''"
| "type_name (Raised n) = n"
| "type_name SystemExit = ''SystemExit''"
| "type_name KeyboardInterrupt = ''KeyboardInterrupt''"

text \<open>\<open>isinstance(e, Exception)\<close>: what the clause \<open>except Exception\<close> catches.\<close>

fun is_Exception :: "exn \<Rightarrow> bool" where
  "is_Exception SystemExit = False"
| "is_Exception KeyboardInterrupt = False"
| "is_Exception e = True"

text \<open>The arguments of one call of \<open>send_notification\<close>.\<close>

record send_args =
  sent_message :: string
  sent_title :: string
  sent_priority :: string
  sent_tags :: "string list"
  sent_project_info :: json
  sent_session_id :: json
  sent_hook_name :: string

text \<open>
  The module \<open>notifications\<close> is imported by the hook and is not part of the hook's
  source. Its two constants and its three result-bearing functions are parameters of
  the model, collected in \<open>env\<close>; each function may return or raise. The record also
  holds what the Python runtime supplies and the hook only passes on: the text of a
  list or dictionary (\<open>str_container\<close>), the text of an exception (\<open>str_exn\<close>) and the
  text of \<open>traceback.format_exc()\<close>.
\<close>

record env =
  PROJECT_TITLE :: string
  PROJECT_TAG :: string
  get_project_context :: "json \<Rightarrow> string \<Rightarrow> exn + json"
  send_notification :: "send_args \<Rightarrow> exn + json"
  play_audio :: "string \<Rightarrow> string \<Rightarrow> exn + unit"
  str_container :: "json \<Rightarrow> string"
  str_exn :: "exn \<Rightarrow> string"
  format_exc :: "exn \<Rightarrow> string"

text \<open>
  Modelled from the spec: the function \<open>log\<close> of the module \<open>notifications\<close>, whose
  source is not part of the hook, has the interface \<open>log(message, hook_name) -> None\<close>:
  it appends a line to the log sink and returns. A call is the effect
  \<open>Log message hook_name\<close>. The other effects record the calls of the three
  collaborators of \<open>env\<close>, in the order in which a run makes them.
\<close>

datatype effect =
    Log string string
  | GetProjectContext json string
  | SendNotification send_args
  | PlayAudio string string

subsection \<open>Built-in operations of Python\<close>

definition digit_char :: "nat \<Rightarrow> char" where
  "digit_char d = char_of (48 + d)"

fun str_nat :: "nat \<Rightarrow> string" where
  "str_nat n = (if n < 10 then [digit_char n] else str_nat (n div 10) @ [digit_char (n mod 10)])"

declare str_nat.simps [simp del]

definition str_int :: "int \<Rightarrow> string" where
  "str_int i = (if i < 0 then ''-'' @ str_nat (nat (- i)) else str_nat (nat i))"

text \<open>\<open>str(v)\<close>, which is what an f-string writes for \<open>{v}\<close>.\<close>

fun py_str :: "env \<Rightarrow> json \<Rightarrow> string" where
  "py_str env JNull = ''None''"
| "py_str env (JBool b) = (if b then ''True'' else ''False'')"
| "py_str env (JInt i) = str_int i"
| "py_str env (JStr s) = s"
| "py_str env (JList xs) = str_container env (JList xs)"
| "py_str env (JObj kvs) = str_container env (JObj kvs)"

text \<open>The truth value of \<open>v\<close> in \<open>if v\<close>, \<open>not v\<close> and \<open>v or w\<close>.\<close>

fun py_bool :: "json \<Rightarrow> bool" where
  "py_bool JNull = False"
| "py_bool (JBool b) = b"
| "py_bool (JInt i) = (i \<noteq> 0)"
| "py_bool (JStr s) = (s \<noteq> [])"
| "py_bool (JList xs) = (xs \<noteq> [])"
| "py_bool (JObj kvs) = (kvs \<noteq> [])"

text \<open>\<open>d.get(k, default)\<close>; \<open>d.get(k)\<close> is \<open>py_get d k JNull\<close>.\<close>

definition py_get :: "(string \<rightharpoonup> json) \<Rightarrow> string \<Rightarrow> json \<Rightarrow> json" where
  "py_get d k dflt = (case d k of None \<Rightarrow> dflt | Some v \<Rightarrow> v)"

text \<open>\<open>v[k]\<close> for a string key \<open>k\<close>.\<close>

fun py_subscript :: "json \<Rightarrow> string \<Rightarrow> exn + json" where
  "py_subscript (JObj kvs) k = (case map_of kvs k of None \<Rightarrow> Inl KeyError | Some v \<Rightarrow> Inr v)"
| "py_subscript v k = Inl TypeError"

text \<open>
  \<open>v[:n]\<close>. A dictionary has no slices: Python raises \<open>TypeError\<close> up to version 3.11
  and \<open>KeyError\<close> from 3.12 on; the model takes \<open>TypeError\<close>.
\<close>

fun py_take :: "nat \<Rightarrow> json \<Rightarrow> exn + json" where
  "py_take n (JList xs) = Inr (JList (take n xs))"
| "py_take n (JStr s) = Inr (JStr (take n s))"
| "py_take n v = Inl TypeError"

fun py_len :: "json \<Rightarrow> exn + int" where
  "py_len (JList xs) = Inr (int (length xs))"
| "py_len (JStr s) = Inr (int (length s))"
| "py_len (JObj kvs) = Inr (int (length kvs))"
| "py_len v = Inl TypeError"

fun join :: "string \<Rightarrow> string list \<Rightarrow> string" where
  "join sep [] = []"
| "join sep [x] = x"
| "join sep (x # y # ys) = x @ sep @ join sep (y # ys)"

fun the_strings :: "json list \<Rightarrow> string list option" where
  "the_strings [] = Some []"
| "the_strings (JStr s # vs) = map_option ((#) s) (the_strings vs)"
| "the_strings (v # vs) = None"

text \<open>
  \<open>sep.join(v)\<close>: every item of a list must be a string; the items of a string are its
  characters; the items of a dictionary are its keys.
\<close>

fun py_join :: "string \<Rightarrow> json \<Rightarrow> exn + string" where
  "py_join sep (JList xs) = (case the_strings xs of None \<Rightarrow> Inl TypeError | Some ss \<Rightarrow> Inr (join sep ss))"
| "py_join sep (JStr s) = Inr (join sep (map (\<lambda>c. [c]) s))"
| "py_join sep (JObj kvs) = Inr (join sep (map fst kvs))"
| "py_join sep v = Inl TypeError"

definition lower_char :: "char \<Rightarrow> char" where
  "lower_char c = (let n = (of_char c :: nat) in if 65 \<le> n \<and> n \<le> 90 then char_of (n + 32) else c)"

text \<open>\<open>s.lower()\<close> on the ASCII letters; the other bytes are left as they are.\<close>

definition py_lower :: "string \<Rightarrow> string" where
  "py_lower s = map lower_char s"

text \<open>\<open>sub in s\<close> for two strings.\<close>

fun py_in :: "string \<Rightarrow> string \<Rightarrow> bool" where
  "py_in sub [] = (sub = [])"
| "py_in sub (c # cs) = (prefix sub (c # cs) \<or> py_in sub cs)"

definition newline :: char where
  "newline = CHR 0x0A"

definition bullet :: string where
  "bullet = [CHR 0xE2, CHR 0x80, CHR 0xA2]"

definition cross :: string where
  "cross = [CHR 0xE2, CHR 0x9C, CHR 0x97]"

section \<open>The hook\<close>

definition HOOK_NAME :: string where
  "HOOK_NAME = ''notification-hook''"

definition ENABLE_NOTIFICATIONS :: bool where
  "ENABLE_NOTIFICATIONS = True"

definition NOTIFICATION_AUDIO_FILE :: string where
  "NOTIFICATION_AUDIO_FILE = ''toasty.mp3''"

text \<open>Returns \<open>(priority, title, tags)\<close>.\<close>

definition analyze_message_content :: "env \<Rightarrow> string \<Rightarrow> json \<Rightarrow> string \<times> string \<times> string list" where
  "analyze_message_content env message hook_event_name =
    (let message_lower = py_lower message;
         project_title = PROJECT_TITLE env;
         project_tag = PROJECT_TAG env
     in if py_in ''permission'' message_lower \<or> py_in ''approval'' message_lower then
          (''high'', project_title @ '': Permission Required'', [''warning'', ''key'', project_tag])
        else if py_in ''error'' message_lower \<or> py_in ''failed'' message_lower then
          (''high'', project_title @ '': Error Detected'', [''red_circle'', ''warning'', project_tag])
        else if py_in ''waiting'' message_lower \<or> py_in ''idle'' message_lower then
          (''low'', project_title @ '': Waiting for Input'', [''clock'', ''zzz'', project_tag])
        else if py_in ''blocked'' message_lower \<or> py_in ''hook'' message_lower then
          (''default'', project_title @ '': Hook Alert'', [''stop_sign'', ''warning'', project_tag])
        else if py_in ''completed'' message_lower \<or> py_in ''finished'' message_lower then
          (''default'', project_title @ '': Task Completed'', [''white_check_mark'', ''gear'', project_tag])
        else
          (''default'', project_title @ '': Notification'', [''bell'', ''info'', project_tag]))"

definition format_notification_message :: "env \<Rightarrow> string \<Rightarrow> json \<Rightarrow> json \<Rightarrow> exn + string" where
  "format_notification_message env original_message hook_event_name project_info =
    (let event_context =
           (if py_bool hook_event_name then '' ('' @ py_str env hook_event_name @ '')'' else '''')
     in case py_subscript project_info ''git_status'' of
          Inl e \<Rightarrow> Inl e
        | Inr git_status \<Rightarrow>
            (let status =
                   (if git_status \<noteq> JStr ''clean''
                    then '' '' @ bullet @ '' '' @ py_str env git_status else '''')
             in Inr (original_message @ event_context @ status)))"

text \<open>
  The lines that the branch on \<open>approval_type\<close> appends to \<open>message_lines\<close>
  (source lines 107 to 118).
\<close>

definition approval_lines :: "env \<Rightarrow> (string \<rightharpoonup> json) \<Rightarrow> json \<Rightarrow> exn + string list" where
  "approval_lines env hook_data approval_type =
    (if approval_type = JStr ''exec'' then
       (let command = py_get hook_data ''command'' JNull
        in if py_bool command then Inr [''Command: '' @ py_str env command] else Inr [])
     else if approval_type = JStr ''patch'' then
       (let got = py_get hook_data ''changes'' JNull;
            changes = (if py_bool got then got else JList [])
        in if py_bool changes then
             (case py_take 3 changes of
                Inl e \<Rightarrow> Inl e
              | Inr first3 \<Rightarrow>
                  (case py_join '', '' first3 of
                     Inl e \<Rightarrow> Inl e
                   | Inr preview \<Rightarrow>
                       (case py_len changes of
                          Inl e \<Rightarrow> Inl e
                        | Inr n \<Rightarrow>
                            (let remaining = n - 3
                             in if remaining > 0
                                then Inr [''Files: '' @ preview, ''(+'' @ str_int remaining @ '' more)'']
                                else Inr [''Files: '' @ preview]))))
           else Inr [])
     else Inr [])"

text \<open>Returns \<open>(title, message, priority, tags)\<close>.\<close>

definition build_tool_permission_notification ::
    "env \<Rightarrow> (string \<rightharpoonup> json) \<Rightarrow> exn + (string \<times> string \<times> string \<times> string list)" where
  "build_tool_permission_notification env hook_data =
    (let approval_type = py_get hook_data ''approval_type'' (JStr ''unknown'');
         tool_name = py_get hook_data ''tool_name'' (JStr ''unknown'');
         reason = py_get hook_data ''reason'' JNull;
         title = PROJECT_TITLE env @ '': Permission Required'';
         header = [''Claude needs permission to use '' @ py_str env tool_name]
     in case approval_lines env hook_data approval_type of
          Inl e \<Rightarrow> Inl e
        | Inr extra \<Rightarrow>
            (let message_lines =
                   header @ extra @ (if py_bool reason then [''Reason: '' @ py_str env reason] else []);
                 message = join [newline] message_lines
             in Inr (title, message, ''high'', [''warning'', ''key'', PROJECT_TAG env])))"

definition build_idle_timeout_notification ::
    "env \<Rightarrow> (string \<rightharpoonup> json) \<Rightarrow> string \<times> string \<times> string \<times> string list" where
  "build_idle_timeout_notification env hook_data =
    (let duration = py_get hook_data ''idle_duration_seconds'' (JInt 60);
         title = PROJECT_TITLE env @ '': Session Idle'';
         message = ''Claude session idle for '' @ py_str env duration @ ''s''
     in (title, message, ''default'', [''clock'', PROJECT_TAG env]))"

text \<open>
  The branch of \<open>main\<close> on the event type (source lines 157 to 177). Returns
  \<open>(title, notification_body, priority, tags, hook_event_name)\<close>. On the generic path
  \<open>message.lower()\<close> raises \<open>AttributeError\<close> when the message is not a string.
\<close>

definition dispatch ::
    "env \<Rightarrow> (string \<rightharpoonup> json) \<Rightarrow> exn + (string \<times> string \<times> string \<times> string list \<times> json)" where
  "dispatch env hook_input =
    (let hook_type = py_get hook_input ''type'' (JStr '''')
     in if hook_type = JStr ''tool-permission-request'' then
          (case build_tool_permission_notification env hook_input of
             Inl e \<Rightarrow> Inl e
           | Inr (title, notification_body, priority, tags) \<Rightarrow>
               Inr (title, notification_body, priority, tags, hook_type))
        else if hook_type = JStr ''prompt-idle-timeout'' then
          (case build_idle_timeout_notification env hook_input of
             (title, notification_body, priority, tags) \<Rightarrow>
               Inr (title, notification_body, priority, tags, hook_type))
        else
          (let raw_message = py_get hook_input ''message'' (JStr '''');
               hook_event_name =
                 py_get hook_input ''hook_event_name''
                   (if py_bool hook_type then hook_type else JStr ''notification'');
               raw_message =
                 (if \<not> py_bool raw_message
                  then JStr (''Codex event: '' @ py_str env hook_event_name) else raw_message)
           in case raw_message of
                JStr m \<Rightarrow>
                  (case analyze_message_content env m hook_event_name of
                     (priority, title, tags) \<Rightarrow> Inr (title, m, priority, tags, hook_event_name))
              | _ \<Rightarrow> Inl AttributeError))"

text \<open>
  The body of the \<open>try\<close> block of \<open>main\<close> after the check of \<open>ENABLE_NOTIFICATIONS\<close>.
  \<open>stdin\<close> is the outcome of \<open>json.loads(sys.stdin.read())\<close>: the parsed value, or the
  exception raised on malformed input. The result is the outcome of the block (a raised
  exception or normal completion) and the effects performed up to that point.
\<close>

definition main_body :: "env \<Rightarrow> exn + json \<Rightarrow> (exn + unit) \<times> effect list" where
  "main_body env stdin =
    (case stdin of
       Inl e \<Rightarrow> (Inl e, [])
     | Inr (JObj kvs) \<Rightarrow>
         (let hook_input = map_of kvs;
              hook_type = py_get hook_input ''type'' (JStr '''');
              session_id = py_get hook_input ''session_id'' (JStr ''unknown'');
              cwd = py_get hook_input ''cwd'' (JStr '''');
              t1 = [Log (''Processing Notification hook for session '' @ py_str env session_id) HOOK_NAME,
                    Log (''Event: '' @ py_str env hook_type) HOOK_NAME,
                    GetProjectContext cwd HOOK_NAME]
          in case get_project_context env cwd HOOK_NAME of
               Inl e \<Rightarrow> (Inl e, t1)
             | Inr project_info \<Rightarrow>
                 (case dispatch env hook_input of
                    Inl e \<Rightarrow> (Inl e, t1)
                  | Inr (title, notification_body, priority, tags, hook_event_name) \<Rightarrow>
                      (case format_notification_message env notification_body hook_event_name project_info of
                         Inl e \<Rightarrow> (Inl e, t1)
                       | Inr formatted_message \<Rightarrow>
                           (let args = \<lparr>sent_message = formatted_message, sent_title = title,
                                        sent_priority = priority, sent_tags = tags,
                                        sent_project_info = project_info, sent_session_id = session_id,
                                        sent_hook_name = HOOK_NAME\<rparr>;
                                t2 = t1 @ [Log (''Message: '' @ notification_body) HOOK_NAME,
                                           SendNotification args]
                            in case send_notification env args of
                                 Inl e \<Rightarrow> (Inl e, t2)
                               | Inr success \<Rightarrow>
                                   if py_bool success then
                                     (let t3 = t2 @ [Log ''Notification sent successfully'' HOOK_NAME,
                                                     PlayAudio NOTIFICATION_AUDIO_FILE HOOK_NAME]
                                      in case play_audio env NOTIFICATION_AUDIO_FILE HOOK_NAME of
                                           Inl e \<Rightarrow> (Inl e, t3)
                                         | Inr u \<Rightarrow> (Inr (), t3))
                                   else (Inr (), t2 @ [Log ''Failed to send notification'' HOOK_NAME])))))
     | Inr v \<Rightarrow> (Inl AttributeError, []))"

text \<open>The five lines the handler \<open>except Exception as e\<close> logs.\<close>

definition handler_log :: "env \<Rightarrow> exn \<Rightarrow> effect list" where
  "handler_log env e =
    [Log (cross @ '' Hook error: '' @ str_exn env e) HOOK_NAME,
     Log (cross @ '' Exception type: '' @ type_name e) HOOK_NAME,
     Log (cross @ '' Exception details: '' @ str_exn env e) HOOK_NAME,
     Log (cross @ '' Full traceback:'') HOOK_NAME,
     Log (format_exc env e) HOOK_NAME]"

text \<open>
  \<open>try: body except Exception as e: handler\<close>: the handler runs when the body raises an
  instance of \<open>Exception\<close>, and then the statement raises only what the handler raises;
  any other exception of the body leaves the statement as it is.
\<close>

definition try_except ::
    "(exn + unit) \<times> effect list \<Rightarrow> (exn \<Rightarrow> (exn + unit) \<times> effect list) \<Rightarrow> (exn + unit) \<times> effect list" where
  "try_except body handler =
    (case body of
       (Inr u, tr) \<Rightarrow> (Inr u, tr)
     | (Inl e, tr) \<Rightarrow>
         if is_Exception e then (case handler e of (r, tr') \<Rightarrow> (r, tr @ tr'))
         else (Inl e, tr))"

definition main :: "env \<Rightarrow> exn + json \<Rightarrow> (exn + unit) \<times> effect list" where
  "main env stdin =
    try_except
      (if \<not> ENABLE_NOTIFICATIONS then (Inr (), []) else main_body env stdin)
      (\<lambda>e. (Inr (), handler_log env e))"

section \<open>Vocabulary of the properties\<close>

text \<open>
  The lines of a text: the pieces between its newlines, as Python's \<open>split\<close> on the
  newline returns them: a text without a newline is its own single line, and a text
  with \<open>n\<close> newlines has \<open>n + 1\<close> lines. There is always at least one line, so the case
  of an empty list in the definition is never taken. \<open>has_line msg l\<close>: one of the lines
  of \<open>msg\<close> is exactly \<open>l\<close>.
\<close>

fun split_lines :: "string \<Rightarrow> string list" where
  "split_lines [] = [[]]"
| "split_lines (c # cs) =
     (if c = newline then [] # split_lines cs
      else (case split_lines cs of l # ls \<Rightarrow> (c # l) # ls | [] \<Rightarrow> [[c]]))"

definition has_line :: "string \<Rightarrow> string \<Rightarrow> bool" where
  "has_line msg l = (l \<in> set (split_lines msg))"

text \<open>The calls of \<open>send_notification\<close> and of \<open>play_audio\<close> in a run, in order.\<close>

fun sent :: "effect list \<Rightarrow> send_args list" where
  "sent [] = []"
| "sent (SendNotification a # tr) = a # sent tr"
| "sent (e # tr) = sent tr"

fun played :: "effect list \<Rightarrow> (string \<times> string) list" where
  "played [] = []"
| "played (PlayAudio f h # tr) = (f, h) # played tr"
| "played (e # tr) = played tr"



text \<open>
  A sample environment for the examples: a project called Demo with a clean working
  tree, a delivery that succeeds and an audio player that returns.
\<close>

definition example_env :: env where
  "example_env =
    \<lparr>PROJECT_TITLE = ''Demo'', PROJECT_TAG = ''demo'',
     get_project_context = (\<lambda>cwd hook. Inr (JObj [(''git_status'', JStr ''clean'')])),
     send_notification = (\<lambda>args. Inr (JBool True)),
     play_audio = (\<lambda>file hook. Inr ()),
     str_container = (\<lambda>v. ''[...]''),
     str_exn = type_name,
     format_exc = (\<lambda>e. ''Traceback (most recent call last): '' @ type_name e)\<rparr>"

text \<open>
  The effects of \<open>main\<close> up to the call of \<open>get_project_context\<close>: the two opening log
  lines and the call itself.
\<close>

definition opening_effects :: "env \<Rightarrow> (string \<times> json) list \<Rightarrow> effect list" where
  "opening_effects env kvs =
     [Log (''Processing Notification hook for session '' @
             py_str env (py_get (map_of kvs) ''session_id'' (JStr ''unknown''))) HOOK_NAME,
      Log (''Event: '' @ py_str env (py_get (map_of kvs) ''type'' (JStr ''''))) HOOK_NAME,
      GetProjectContext (py_get (map_of kvs) ''cwd'' (JStr '''')) HOOK_NAME]"

section \<open>Lemmas on the built-in operations\<close>

lemma join_Cons:
  "join sep (x # xs) = (if xs = [] then x else x @ sep @ join sep xs)"
  by (cases xs) auto

lemma split_lines_not_Nil: "split_lines s \<noteq> []"
  by (induction s) (auto split: list.splits)

lemma split_lines_no_newline: "newline \<notin> set l \<Longrightarrow> split_lines l = [l]"
  by (induction l) auto

lemma split_lines_append_newline:
  "split_lines (a @ newline # b) = split_lines a @ split_lines b"
proof (induction a)
  case Nil
  then show ?case by simp
next
  case (Cons c a)
  then show ?case
    using split_lines_not_Nil [of a] by (cases "split_lines a") auto
qed

lemma split_lines_join:
  "ls \<noteq> [] \<Longrightarrow> split_lines (join [newline] ls) = concat (map split_lines ls)"
proof (induction ls)
  case Nil
  then show ?case by simp
next
  case (Cons l ls)
  show ?case
  proof (cases "ls = []")
    case True
    then show ?thesis by simp
  next
    case False
    then have "join [newline] (l # ls) = l @ newline # join [newline] ls"
      by (simp add: join_Cons)
    then show ?thesis
      using Cons.IH [OF False] by (simp add: split_lines_append_newline)
  qed
qed

lemma has_line_join:
  assumes "l \<in> set ls" and "newline \<notin> set l"
  shows "has_line (join [newline] ls) l"
proof -
  from assms(1) have "ls \<noteq> []" by auto
  then have "set (split_lines (join [newline] ls)) = (\<Union>x\<in>set ls. set (split_lines x))"
    by (simp add: split_lines_join)
  moreover have "l \<in> set (split_lines l)"
    using assms(2) by (simp add: split_lines_no_newline)
  ultimately show ?thesis
    using assms(1) unfolding has_line_def by blast
qed

lemma set_join: "set (join sep xs) \<subseteq> set sep \<union> (\<Union>x\<in>set xs. set x)"
  by (induction sep xs rule: join.induct) auto

lemma digit_char_not_newline: "d < 10 \<Longrightarrow> digit_char d \<noteq> newline"
proof
  assume d: "d < 10" and eq: "digit_char d = newline"
  have "(of_char (digit_char d) :: nat) = 48 + d"
    using d by (simp add: digit_char_def)
  moreover have "(of_char newline :: nat) = 10"
    by (simp add: newline_def)
  ultimately show False using eq by simp
qed

lemma newline_str_nat: "newline \<notin> set (str_nat n)"
proof (induction n rule: str_nat.induct)
  case (1 n)
  show ?case
  proof (cases "n < 10")
    case True
    then show ?thesis
      using digit_char_not_newline [of n] by (subst str_nat.simps) auto
  next
    case False
    have "n mod 10 < 10" by simp
    then have "digit_char (n mod 10) \<noteq> newline" by (rule digit_char_not_newline)
    with False 1 show ?thesis
      by (subst str_nat.simps) auto
  qed
qed

lemma newline_str_int: "newline \<notin> set (str_int i)"
proof -
  have "newline \<notin> set ''-''" by (simp add: newline_def)
  then show ?thesis
    using newline_str_nat by (simp add: str_int_def)
qed

lemma newline_more_line: "newline \<notin> set (''(+'' @ str_int i @ '' more)'')"
proof -
  have "newline \<notin> set ''(+''" "newline \<notin> set '' more)''"
    by (simp_all add: newline_def)
  then show ?thesis
    using newline_str_int [of i] by (simp only: set_append Un_iff) blast
qed

lemma newline_files_line:
  assumes "\<forall>f\<in>set fs. newline \<notin> set f"
  shows "newline \<notin> set (''Files: '' @ join '', '' fs)"
proof -
  have "newline \<notin> set '', ''" by (simp add: newline_def)
  with assms have "newline \<notin> set (join '', '' fs)"
    using set_join [of "'', ''" fs] by blast
  moreover have "newline \<notin> set ''Files: ''" by (simp add: newline_def)
  ultimately show ?thesis by (simp only: set_append Un_iff) blast
qed

text \<open>\<open>py_in\<close> is the contiguous-sublist relation.\<close>

lemma py_in_iff: "py_in sub s \<longleftrightarrow> sublist sub s"
  by (induction s) (auto simp: sublist_Cons_right)

section \<open>The classifier\<close>




text \<open>
  C10. For every message and event name, in each of the six branches,
  \<open>analyze_message_content\<close> returns a list of exactly three tags whose last element is
  the project tag, and a title that begins with the project title followed by a colon
  and a space.
\<close>

theorem analyze_message_content_shape:
  "length (snd (snd (analyze_message_content env message hook_event_name))) = 3 \<and>
   last (snd (snd (analyze_message_content env message hook_event_name))) = PROJECT_TAG env \<and>
   prefix (PROJECT_TITLE env @ '': '') (fst (snd (analyze_message_content env message hook_event_name)))"
  by (simp add: analyze_message_content_def Let_def)

theorem analyze_message_content_shape_witness:
  "snd (snd (analyze_message_content example_env ''Build failed'' JNull)) =
     [''red_circle'', ''warning'', ''demo''] \<and>
   prefix ''Demo: '' (fst (snd (analyze_message_content example_env ''Build failed'' JNull)))"
proof -
  have "analyze_message_content example_env ''Build failed'' JNull =
      (''high'', ''Demo: Error Detected'', [''red_circle'', ''warning'', ''demo''])"
    by code_simp
  moreover have "PROJECT_TITLE example_env = ''Demo''"
    by (simp add: example_env_def)
  ultimately show ?thesis
    using analyze_message_content_shape [of example_env "''Build failed''" JNull]
    by simp
qed

section \<open>The presentations of the two special event types\<close>

lemma str_int_60: "str_int 60 = ''60''"
  by code_simp

lemma py_get_simps:
  "d k = None \<Longrightarrow> py_get d k dflt = dflt"
  "d k = Some v \<Longrightarrow> py_get d k dflt = v"
  by (simp_all add: py_get_def)

text \<open>
  C5. For every event whose \<open>type\<close> is \<open>prompt-idle-timeout\<close>, the presentation built has
  the title \<open><ProjectTitle>: Session Idle\<close>, the message \<open>Claude session idle for <d>s\<close>,
  where \<open>d\<close> is the text of the field \<open>idle_duration_seconds\<close>, or 60 when the field is
  absent, and the priority \<open>default\<close>.
\<close>

theorem idle_timeout_presentation:
  assumes "hook_input ''type'' = Some (JStr ''prompt-idle-timeout'')"
  shows "dispatch env hook_input =
    Inr (PROJECT_TITLE env @ '': Session Idle'',
         ''Claude session idle for '' @
           (case hook_input ''idle_duration_seconds'' of None \<Rightarrow> ''60'' | Some d \<Rightarrow> py_str env d) @ ''s'',
         ''default'', [''clock'', PROJECT_TAG env], JStr ''prompt-idle-timeout'')"
  using assms
  by (simp add: dispatch_def build_idle_timeout_notification_def py_get_def str_int_60
      split: option.splits)

text \<open>The example of the specification: an idle time of 45 seconds.\<close>

theorem idle_timeout_presentation_witness:
  "map_of [(''type'', JStr ''prompt-idle-timeout''), (''idle_duration_seconds'', JInt 45),
           (''session_id'', JStr ''s1''), (''cwd'', JStr ''/tmp'')] ''type''
     = Some (JStr ''prompt-idle-timeout'') \<and>
   dispatch example_env
     (map_of [(''type'', JStr ''prompt-idle-timeout''), (''idle_duration_seconds'', JInt 45),
              (''session_id'', JStr ''s1''), (''cwd'', JStr ''/tmp'')]) =
     Inr (''Demo: Session Idle'', ''Claude session idle for 45s'', ''default'', [''clock'', ''demo''],
          JStr ''prompt-idle-timeout'')"
proof -
  let ?ev = "map_of [(''type'', JStr ''prompt-idle-timeout''), (''idle_duration_seconds'', JInt 45),
           (''session_id'', JStr ''s1''), (''cwd'', JStr ''/tmp'')]"
  have h: "?ev ''type'' = Some (JStr ''prompt-idle-timeout'')" by simp
  have s: "str_int 45 = ''45''" by code_simp
  show ?thesis
    using idle_timeout_presentation [of "?ev" example_env] h
    by (simp add: example_env_def s)
qed

lemma the_strings_map: "the_strings (map JStr ss) = Some ss"
  by (induction ss) auto

text \<open>
  C2 as stated asks, for every sequence of more than three strings, for a line that
  lists the first three entries. The source joins the entries and the lines of the
  message without escaping, so an entry that contains a newline is spread over two
  lines of the message: when the first entry is \<open>a\<close>, a newline and \<open>b\<close>, and the others are \<open>c\<close>, \<open>d\<close>, \<open>e\<close>, the lines of the message
  are the header, \<open>Files: a\<close>, \<open>b, c, d\<close> and \<open>(+1 more)\<close>, and none of them lists the
  first three entries.
\<close>

theorem patch_newline_counterexample:
  "dispatch example_env
     (map_of [(''type'', JStr ''tool-permission-request''), (''approval_type'', JStr ''patch''),
              (''changes'', JList (map JStr [''a'' @ [newline] @ ''b'', ''c'', ''d'', ''e'']))]) =
     Inr (''Demo: Permission Required'',
          ''Claude needs permission to use unknown'' @ [newline] @ ''Files: a'' @ [newline] @
            ''b, c, d'' @ [newline] @ ''(+1 more)'',
          ''high'', [''warning'', ''key'', ''demo''], JStr ''tool-permission-request'') \<and>
   split_lines (''Claude needs permission to use unknown'' @ [newline] @ ''Files: a'' @ [newline] @
            ''b, c, d'' @ [newline] @ ''(+1 more)'') =
     [''Claude needs permission to use unknown'', ''Files: a'', ''b, c, d'', ''(+1 more)''] \<and>
   \<not> has_line (''Claude needs permission to use unknown'' @ [newline] @ ''Files: a'' @ [newline] @
            ''b, c, d'' @ [newline] @ ''(+1 more)'')
         (''Files: '' @ join '', '' (take 3 [''a'' @ [newline] @ ''b'', ''c'', ''d'', ''e'']))"
  by code_simp

text \<open>
  C2, amended. For every event whose \<open>type\<close> is \<open>tool-permission-request\<close>, whose
  \<open>approval_type\<close> is \<open>patch\<close> and whose \<open>changes\<close> is a sequence of \<open>N > 3\<close> strings, one
  line of the message built is exactly \<open>(+<N-3> more)\<close>, and, when none of the first
  three entries contains a newline, one line of the message is exactly \<open>Files: \<close>
  followed by the first three entries joined by a comma and a space.
\<close>

theorem patch_lists_three_files:
  assumes "hook_input ''type'' = Some (JStr ''tool-permission-request'')"
    and "hook_input ''approval_type'' = Some (JStr ''patch'')"
    and "hook_input ''changes'' = Some (JList (map JStr files))"
    and "length files > 3"
  shows "\<exists>title message priority tags event.
           dispatch env hook_input = Inr (title, message, priority, tags, event) \<and>
           has_line message (''(+'' @ str_int (int (length files) - 3) @ '' more)'') \<and>
           ((\<forall>f\<in>set (take 3 files). newline \<notin> set f) \<longrightarrow>
              has_line message (''Files: '' @ join '', '' (take 3 files)))"
proof -
  have nonempty: "files \<noteq> []" using assms(4) by auto
  have lines: "approval_lines env hook_input (JStr ''patch'') =
      Inr [''Files: '' @ join '', '' (take 3 files),
           ''(+'' @ str_int (int (length files) - 3) @ '' more)'']"
    using assms(3,4) nonempty
    by (simp add: approval_lines_def py_get_def Let_def take_map the_strings_map)
  define message_lines where "message_lines =
      [''Claude needs permission to use '' @ py_str env (py_get hook_input ''tool_name'' (JStr ''unknown''))]
      @ [''Files: '' @ join '', '' (take 3 files),
         ''(+'' @ str_int (int (length files) - 3) @ '' more)'']
      @ (if py_bool (py_get hook_input ''reason'' JNull)
         then [''Reason: '' @ py_str env (py_get hook_input ''reason'' JNull)] else [])"
  have build: "build_tool_permission_notification env hook_input =
      Inr (PROJECT_TITLE env @ '': Permission Required'', join [newline] message_lines,
           ''high'', [''warning'', ''key'', PROJECT_TAG env])"
    using assms(2) lines
    by (simp add: build_tool_permission_notification_def Let_def py_get_simps message_lines_def)
  have disp: "dispatch env hook_input =
      Inr (PROJECT_TITLE env @ '': Permission Required'', join [newline] message_lines,
           ''high'', [''warning'', ''key'', PROJECT_TAG env], JStr ''tool-permission-request'')"
    using assms(1) build by (simp add: dispatch_def py_get_simps)
  have more: "has_line (join [newline] message_lines)
      (''(+'' @ str_int (int (length files) - 3) @ '' more)'')"
  proof (rule has_line_join)
    show "''(+'' @ str_int (int (length files) - 3) @ '' more)'' \<in> set message_lines"
      by (simp add: message_lines_def)
    show "newline \<notin> set (''(+'' @ str_int (int (length files) - 3) @ '' more)'')"
      by (rule newline_more_line)
  qed
  have files: "has_line (join [newline] message_lines) (''Files: '' @ join '', '' (take 3 files))"
    if "\<forall>f\<in>set (take 3 files). newline \<notin> set f"
  proof (rule has_line_join)
    show "''Files: '' @ join '', '' (take 3 files) \<in> set message_lines"
      by (simp add: message_lines_def)
    show "newline \<notin> set (''Files: '' @ join '', '' (take 3 files))"
      using that by (rule newline_files_line)
  qed
  from disp more files show ?thesis by blast
qed

theorem patch_lists_three_files_witness:
  "map_of [(''type'', JStr ''tool-permission-request''), (''approval_type'', JStr ''patch''),
           (''changes'', JList (map JStr [''a.py'', ''b.py'', ''c.py'', ''d.py'', ''e.py'']))] ''type''
     = Some (JStr ''tool-permission-request'') \<and>
   length [''a.py'', ''b.py'', ''c.py'', ''d.py'', ''e.py''] > 3 \<and>
   newline \<notin> set ''a.py'' \<and> newline \<notin> set ''b.py'' \<and> newline \<notin> set ''c.py'' \<and>
   (\<exists>title message priority tags event.
      dispatch example_env
        (map_of [(''type'', JStr ''tool-permission-request''), (''approval_type'', JStr ''patch''),
                 (''changes'', JList (map JStr [''a.py'', ''b.py'', ''c.py'', ''d.py'', ''e.py'']))])
        = Inr (title, message, priority, tags, event) \<and>
      has_line message ''Files: a.py, b.py, c.py'' \<and>
      has_line message ''(+2 more)'')"
proof -
  let ?files = "[''a.py'', ''b.py'', ''c.py'', ''d.py'', ''e.py'']"
  let ?ev = "map_of [(''type'', JStr ''tool-permission-request''), (''approval_type'', JStr ''patch''),
           (''changes'', JList (map JStr ?files))]"
  have h1: "?ev ''type'' = Some (JStr ''tool-permission-request'')" by simp
  have h2: "?ev ''approval_type'' = Some (JStr ''patch'')" by simp
  have h3: "?ev ''changes'' = Some (JList (map JStr ?files))" by simp
  have h4: "length ?files > 3" by simp
  have h5: "\<forall>f\<in>set (take 3 ?files). newline \<notin> set f" by code_simp
  have h6: "newline \<notin> set ''a.py'' \<and> newline \<notin> set ''b.py'' \<and> newline \<notin> set ''c.py''"
    by code_simp
  have s: "str_int (int (length ?files) - 3) = ''2''" by code_simp
  have j: "''Files: '' @ join '', '' (take 3 ?files) = ''Files: a.py, b.py, c.py''" by code_simp
  have p: "''(+'' @ ''2'' @ '' more)'' = ''(+2 more)''" by simp
  show ?thesis
    using patch_lists_three_files [of "?ev" ?files example_env, OF h1 h2 h3 h4] h1 h4 h5 h6
    unfolding s j p by blast
qed

text \<open>
  C3 as stated asks for the line \<open>Command: <command>\<close> whenever the field \<open>command\<close> is
  present. The source appends the line under the guard \<open>if command:\<close>, so a command
  that is present and empty gives no such line. And the source joins the lines of the
  message without escaping, so a command that contains a newline is spread over two
  lines: for the command \<open>ls\<close>, a newline, \<open>rm -rf build\<close> the lines of the message are the header,
  \<open>Command: ls\<close> and \<open>rm -rf build\<close>.
\<close>

theorem exec_command_counterexample:
  "map_of [(''type'', JStr ''tool-permission-request''), (''approval_type'', JStr ''exec''),
           (''command'', JStr '''')] ''command'' = Some (JStr '''') \<and>
   dispatch example_env
     (map_of [(''type'', JStr ''tool-permission-request''), (''approval_type'', JStr ''exec''),
              (''command'', JStr '''')]) =
     Inr (''Demo: Permission Required'', ''Claude needs permission to use unknown'', ''high'',
          [''warning'', ''key'', ''demo''], JStr ''tool-permission-request'') \<and>
   \<not> has_line ''Claude needs permission to use unknown''
         (''Command: '' @ py_str example_env (JStr '''')) \<and>
   dispatch example_env
     (map_of [(''type'', JStr ''tool-permission-request''), (''approval_type'', JStr ''exec''),
              (''command'', JStr (''ls'' @ [newline] @ ''rm -rf build''))]) =
     Inr (''Demo: Permission Required'',
          ''Claude needs permission to use unknown'' @ [newline] @ ''Command: ls'' @ [newline] @
            ''rm -rf build'',
          ''high'', [''warning'', ''key'', ''demo''], JStr ''tool-permission-request'') \<and>
   split_lines (''Claude needs permission to use unknown'' @ [newline] @ ''Command: ls'' @ [newline] @
            ''rm -rf build'') =
     [''Claude needs permission to use unknown'', ''Command: ls'', ''rm -rf build''] \<and>
   \<not> has_line (''Claude needs permission to use unknown'' @ [newline] @ ''Command: ls'' @ [newline] @
            ''rm -rf build'')
         (''Command: '' @ py_str example_env (JStr (''ls'' @ [newline] @ ''rm -rf build'')))"
  by code_simp

text \<open>
  C3, amended. For every event whose \<open>type\<close> is \<open>tool-permission-request\<close>, whose
  \<open>approval_type\<close> is \<open>exec\<close> and whose field \<open>command\<close> is present, true in the sense of
  Python (for a string: not empty) and written without a newline, one line of the
  message built is exactly \<open>Command: <command>\<close>.
\<close>

theorem exec_shows_command:
  assumes "hook_input ''type'' = Some (JStr ''tool-permission-request'')"
    and "hook_input ''approval_type'' = Some (JStr ''exec'')"
    and "hook_input ''command'' = Some command"
    and "py_bool command"
    and "newline \<notin> set (py_str env command)"
  shows "\<exists>title message priority tags event.
           dispatch env hook_input = Inr (title, message, priority, tags, event) \<and>
           has_line message (''Command: '' @ py_str env command)"
proof -
  have lines: "approval_lines env hook_input (JStr ''exec'') = Inr [''Command: '' @ py_str env command]"
    using assms(3,4) by (simp add: approval_lines_def py_get_def)
  define message_lines where "message_lines =
      [''Claude needs permission to use '' @ py_str env (py_get hook_input ''tool_name'' (JStr ''unknown''))]
      @ [''Command: '' @ py_str env command]
      @ (if py_bool (py_get hook_input ''reason'' JNull)
         then [''Reason: '' @ py_str env (py_get hook_input ''reason'' JNull)] else [])"
  have build: "build_tool_permission_notification env hook_input =
      Inr (PROJECT_TITLE env @ '': Permission Required'', join [newline] message_lines,
           ''high'', [''warning'', ''key'', PROJECT_TAG env])"
    using assms(2) lines
    by (simp add: build_tool_permission_notification_def Let_def py_get_simps message_lines_def)
  have disp: "dispatch env hook_input =
      Inr (PROJECT_TITLE env @ '': Permission Required'', join [newline] message_lines,
           ''high'', [''warning'', ''key'', PROJECT_TAG env], JStr ''tool-permission-request'')"
    using assms(1) build by (simp add: dispatch_def py_get_simps)
  have "has_line (join [newline] message_lines) (''Command: '' @ py_str env command)"
  proof (rule has_line_join)
    show "''Command: '' @ py_str env command \<in> set message_lines"
      by (simp add: message_lines_def)
    have "newline \<notin> set ''Command: ''" by (simp add: newline_def)
    with assms(5) show "newline \<notin> set (''Command: '' @ py_str env command)"
      by (simp only: set_append Un_iff) blast
  qed
  then show ?thesis using disp by blast
qed

theorem exec_shows_command_witness:
  "map_of [(''type'', JStr ''tool-permission-request''), (''approval_type'', JStr ''exec''),
           (''command'', JStr ''ls -la'')] ''command'' = Some (JStr ''ls -la'') \<and>
   py_bool (JStr ''ls -la'') \<and>
   newline \<notin> set (py_str example_env (JStr ''ls -la'')) \<and>
   (\<exists>title message priority tags event.
      dispatch example_env
        (map_of [(''type'', JStr ''tool-permission-request''), (''approval_type'', JStr ''exec''),
                 (''command'', JStr ''ls -la'')])
        = Inr (title, message, priority, tags, event) \<and>
      has_line message ''Command: ls -la'')"
proof -
  let ?ev = "map_of [(''type'', JStr ''tool-permission-request''), (''approval_type'', JStr ''exec''),
           (''command'', JStr ''ls -la'')]"
  have h1: "?ev ''type'' = Some (JStr ''tool-permission-request'')" by simp
  have h2: "?ev ''approval_type'' = Some (JStr ''exec'')" by simp
  have h3: "?ev ''command'' = Some (JStr ''ls -la'')" by simp
  have h4: "py_bool (JStr ''ls -la'')" by simp
  have h5: "newline \<notin> set (py_str example_env (JStr ''ls -la''))" by (simp add: newline_def)
  have c: "''Command: '' @ py_str example_env (JStr ''ls -la'') = ''Command: ls -la''" by simp
  show ?thesis
    using exec_shows_command [of "?ev" "JStr ''ls -la''" example_env, OF h1 h2 h3 h4 h5] h3 h4 h5
    unfolding c by blast
qed

section \<open>Message enrichment\<close>



section \<open>The driver\<close>

lemma sent_append: "sent (tr @ tr') = sent tr @ sent tr'"
  by (induction tr rule: sent.induct) auto

lemma played_append: "played (tr @ tr') = played tr @ played tr'"
  by (induction tr rule: played.induct) auto

lemma sent_handler_log: "sent (handler_log env e) = []"
  by (simp add: handler_log_def)

lemma played_handler_log: "played (handler_log env e) = []"
  by (simp add: handler_log_def)

lemma main_unfold:
  "main env stdin =
    (case main_body env stdin of
       (Inr u, tr) \<Rightarrow> (Inr u, tr)
     | (Inl e, tr) \<Rightarrow>
         if is_Exception e then (Inr (), tr @ handler_log env e) else (Inl e, tr))"
  by (simp add: main_def try_except_def ENABLE_NOTIFICATIONS_def split: prod.splits sum.splits)

lemma sent_main: "sent (snd (main env stdin)) = sent (snd (main_body env stdin))"
  by (simp add: main_unfold sent_append sent_handler_log split: prod.splits sum.splits)

lemma played_main: "played (snd (main env stdin)) = played (snd (main_body env stdin))"
  by (simp add: main_unfold played_append played_handler_log split: prod.splits sum.splits)

lemma sent_opening_effects: "sent (opening_effects env kvs) = []" "played (opening_effects env kvs) = []"
  by (simp_all add: opening_effects_def)

lemma main_body_trace:
  "(\<exists>e. main_body env stdin = (Inl e, [])) \<or>
   (\<exists>kvs e. main_body env stdin = (Inl e, opening_effects env kvs)) \<or>
   (\<exists>kvs a m e. main_body env stdin = (Inl e, opening_effects env kvs @ [Log m HOOK_NAME, SendNotification a])
       \<and> send_notification env a = Inl e) \<or>
   (\<exists>kvs a m v. main_body env stdin =
         (Inr (), opening_effects env kvs @ [Log m HOOK_NAME, SendNotification a] @
                  [Log ''Failed to send notification'' HOOK_NAME])
       \<and> send_notification env a = Inr v \<and> \<not> py_bool v) \<or>
   (\<exists>kvs a m v r. main_body env stdin =
         (r, opening_effects env kvs @ [Log m HOOK_NAME, SendNotification a] @
                  [Log ''Notification sent successfully'' HOOK_NAME,
                   PlayAudio NOTIFICATION_AUDIO_FILE HOOK_NAME])
       \<and> send_notification env a = Inr v \<and> py_bool v)"
proof (cases stdin)
  case (Inl e)
  then show ?thesis by (simp add: main_body_def)
next
  case (Inr v)
  show ?thesis
  proof (cases "\<exists>kvs. v = JObj kvs")
    case False
    then have "main_body env stdin = (Inl AttributeError, [])"
      using Inr by (cases v) (simp_all add: main_body_def)
    then show ?thesis by simp
  next
    case True
    then obtain kvs where v: "v = JObj kvs" by blast
    show ?thesis
    proof (cases "get_project_context env (py_get (map_of kvs) ''cwd'' (JStr '''')) HOOK_NAME")
      case (Inl e)
      then have "main_body env stdin = (Inl e, opening_effects env kvs)"
        using Inr v by (simp add: main_body_def opening_effects_def Let_def)
      then show ?thesis by blast
    next
      case ctx: (Inr project_info)
      show ?thesis
      proof (cases "dispatch env (map_of kvs)")
        case (Inl e)
        then have "main_body env stdin = (Inl e, opening_effects env kvs)"
          using Inr v ctx by (simp add: main_body_def opening_effects_def Let_def)
        then show ?thesis by blast
      next
        case disp: (Inr p)
        obtain title body priority tags event where p: "p = (title, body, priority, tags, event)"
          by (cases p) auto
        show ?thesis
        proof (cases "format_notification_message env body event project_info")
          case (Inl e)
          then have "main_body env stdin = (Inl e, opening_effects env kvs)"
            using Inr v ctx disp p by (simp add: main_body_def opening_effects_def Let_def)
          then show ?thesis by blast
        next
          case fmt: (Inr formatted)
          define a where "a = \<lparr>sent_message = formatted, sent_title = title,
              sent_priority = priority, sent_tags = tags, sent_project_info = project_info,
              sent_session_id = py_get (map_of kvs) ''session_id'' (JStr ''unknown''),
              sent_hook_name = HOOK_NAME\<rparr>"
          show ?thesis
          proof (cases "send_notification env a")
            case (Inl e)
            then have "main_body env stdin =
                (Inl e, opening_effects env kvs @ [Log (''Message: '' @ body) HOOK_NAME, SendNotification a])"
              using Inr v ctx disp p fmt by (simp add: main_body_def opening_effects_def a_def Let_def)
            with Inl show ?thesis by blast
          next
            case snd: (Inr s)
            show ?thesis
            proof (cases "py_bool s")
              case False
              with snd have "main_body env stdin =
                  (Inr (), opening_effects env kvs @ [Log (''Message: '' @ body) HOOK_NAME, SendNotification a] @
                     [Log ''Failed to send notification'' HOOK_NAME])"
                using Inr v ctx disp p fmt by (simp add: main_body_def opening_effects_def a_def Let_def)
              with snd False show ?thesis by blast
            next
              case True
              with snd have "\<exists>r. main_body env stdin =
                  (r, opening_effects env kvs @ [Log (''Message: '' @ body) HOOK_NAME, SendNotification a] @
                     [Log ''Notification sent successfully'' HOOK_NAME,
                      PlayAudio NOTIFICATION_AUDIO_FILE HOOK_NAME])"
                using Inr v ctx disp p fmt
                by (simp add: main_body_def opening_effects_def a_def Let_def split: sum.splits)
              with snd True show ?thesis by blast
            qed
          qed
        qed
      qed
    qed
  qed
qed

lemma sent_main_body:
  assumes "get_project_context env (py_get (map_of kvs) ''cwd'' (JStr '''')) HOOK_NAME = Inr project_info"
    and "dispatch env (map_of kvs) = Inr (title, body, priority, tags, event)"
    and "format_notification_message env body event project_info = Inr formatted"
  shows "sent (snd (main_body env (Inr (JObj kvs)))) =
    [\<lparr>sent_message = formatted, sent_title = title, sent_priority = priority, sent_tags = tags,
      sent_project_info = project_info,
      sent_session_id = py_get (map_of kvs) ''session_id'' (JStr ''unknown''),
      sent_hook_name = HOOK_NAME\<rparr>]"
proof -
  define a where "a = \<lparr>sent_message = formatted, sent_title = title,
      sent_priority = priority, sent_tags = tags, sent_project_info = project_info,
      sent_session_id = py_get (map_of kvs) ''session_id'' (JStr ''unknown''),
      sent_hook_name = HOOK_NAME\<rparr>"
  have "\<exists>r tr. main_body env (Inr (JObj kvs)) =
      (r, opening_effects env kvs @ [Log (''Message: '' @ body) HOOK_NAME, SendNotification a] @ tr) \<and> sent tr = []"
  proof (cases "send_notification env a")
    case (Inl e)
    then have "main_body env (Inr (JObj kvs)) =
        (Inl e, opening_effects env kvs @ [Log (''Message: '' @ body) HOOK_NAME, SendNotification a] @ [])"
      using assms by (simp add: main_body_def opening_effects_def a_def Let_def)
    then show ?thesis by (metis sent.simps(1))
  next
    case (Inr s)
    show ?thesis
    proof (cases "py_bool s")
      case False
      with Inr have "main_body env (Inr (JObj kvs)) =
          (Inr (), opening_effects env kvs @ [Log (''Message: '' @ body) HOOK_NAME, SendNotification a] @
             [Log ''Failed to send notification'' HOOK_NAME])"
        using assms by (simp add: main_body_def opening_effects_def a_def Let_def)
      moreover have "sent [Log ''Failed to send notification'' HOOK_NAME] = []" by simp
      ultimately show ?thesis by blast
    next
      case True
      with Inr have "\<exists>r. main_body env (Inr (JObj kvs)) =
          (r, opening_effects env kvs @ [Log (''Message: '' @ body) HOOK_NAME, SendNotification a] @
             [Log ''Notification sent successfully'' HOOK_NAME,
              PlayAudio NOTIFICATION_AUDIO_FILE HOOK_NAME])"
        using assms by (simp add: main_body_def opening_effects_def a_def Let_def split: sum.splits)
      moreover have "sent [Log ''Notification sent successfully'' HOOK_NAME,
              PlayAudio NOTIFICATION_AUDIO_FILE HOOK_NAME] = []" by simp
      ultimately show ?thesis by blast
    qed
  qed
  then obtain r tr where "main_body env (Inr (JObj kvs)) =
      (r, opening_effects env kvs @ [Log (''Message: '' @ body) HOOK_NAME, SendNotification a] @ tr)" "sent tr = []"
    by blast
  then show ?thesis
    by (simp add: sent_append sent_opening_effects a_def)
qed

text \<open>
  C9. In every run of the driver, \<open>play_audio\<close> is called if and only if
  \<open>send_notification\<close> was called and returned a true value, and then it is called once,
  with the file \<open>toasty.mp3\<close>. After a delivery that failed, raised or was never
  attempted, no audio is played.
\<close>

theorem audio_iff_delivered:
  "played (snd (main env stdin)) =
     (if \<exists>a\<in>set (sent (snd (main env stdin))). \<exists>v. send_notification env a = Inr v \<and> py_bool v
      then [(NOTIFICATION_AUDIO_FILE, HOOK_NAME)] else [])"
proof -
  have "played (snd (main_body env stdin)) =
     (if \<exists>a\<in>set (sent (snd (main_body env stdin))). \<exists>v. send_notification env a = Inr v \<and> py_bool v
      then [(NOTIFICATION_AUDIO_FILE, HOOK_NAME)] else [])"
    using main_body_trace [of env stdin]
    by (elim disjE exE conjE) (simp_all add: sent_append played_append sent_opening_effects)
  then show ?thesis by (simp only: sent_main played_main)
qed

theorem audio_iff_delivered_witness:
  "played (snd (main example_env (Inr (JObj [(''message'', JStr ''Build finished'')])))) =
     [(''toasty.mp3'', ''notification-hook'')] \<and>
   played (snd (main (example_env\<lparr>send_notification := (\<lambda>args. Inr (JBool False))\<rparr>)
                  (Inr (JObj [(''message'', JStr ''Build finished'')])))) = []"
proof -
  let ?stdin = "Inr (JObj [(''message'', JStr ''Build finished'')])"
  let ?failing = "example_env\<lparr>send_notification := (\<lambda>args. Inr (JBool False))\<rparr>"
  have s1: "length (sent (snd (main example_env ?stdin))) = 1"
    by code_simp
  have s2: "length (sent (snd (main ?failing ?stdin))) = 1"
    by code_simp
  have n: "NOTIFICATION_AUDIO_FILE = ''toasty.mp3''" "HOOK_NAME = ''notification-hook''"
    by (simp_all add: NOTIFICATION_AUDIO_FILE_def HOOK_NAME_def)
  from s1 have ne1: "sent (snd (main example_env ?stdin)) \<noteq> []" by auto
  have "played (snd (main example_env ?stdin)) = [(''toasty.mp3'', ''notification-hook'')]"
    using audio_iff_delivered [of example_env ?stdin] ne1
    by (simp add: example_env_def n)
  moreover have "played (snd (main ?failing ?stdin)) = []"
    using audio_iff_delivered [of ?failing ?stdin]
    by (simp add: example_env_def)
  ultimately show ?thesis by simp
qed

text \<open>
  C8 as stated says that no exception of the processing cycle ever reaches the caller
  of \<open>main\<close>. The handler of \<open>main\<close> is \<open>except Exception\<close>, which does not catch an
  exception that is not an instance of \<open>Exception\<close>: when \<open>send_notification\<close> raises
  \<open>SystemExit\<close>, \<open>main\<close> raises it too.
\<close>

theorem main_propagates_counterexample:
  "fst (main (example_env\<lparr>send_notification := (\<lambda>args. Inl SystemExit)\<rparr>)
             (Inr (JObj [(''message'', JStr ''Build finished'')]))) = Inl SystemExit"
  by code_simp

text \<open>
  C8, amended. For every input, including standard input that is not JSON, and every
  behaviour of the three collaborators, every exception of the processing cycle that
  is an instance of \<open>Exception\<close> is caught by the handler of \<open>main\<close>, logged and
  suppressed: \<open>main\<close> returns normally, and to the effects performed so far the handler
  adds five log lines, which are the error, the type of the exception, its details,
  the heading \<open>Full traceback:\<close> and the traceback. When the standard input is not JSON
  the run consists of these five log lines. An exception that is not an instance of
  \<open>Exception\<close> (\<open>SystemExit\<close>, \<open>KeyboardInterrupt\<close>) is not caught: \<open>main\<close> raises it and
  logs nothing more. A cycle that raises nothing returns normally. All this is with a
  \<open>log\<close> that returns, as its interface says.
\<close>

theorem main_catches_Exception:
  "(case main_body env stdin of
      (Inr u, tr) \<Rightarrow> main env stdin = (Inr (), tr)
    | (Inl e, tr) \<Rightarrow>
        main env stdin =
          (if is_Exception e
           then (Inr (),
                 tr @ [Log (cross @ '' Hook error: '' @ str_exn env e) HOOK_NAME,
                       Log (cross @ '' Exception type: '' @ type_name e) HOOK_NAME,
                       Log (cross @ '' Exception details: '' @ str_exn env e) HOOK_NAME,
                       Log (cross @ '' Full traceback:'') HOOK_NAME,
                       Log (format_exc env e) HOOK_NAME])
           else (Inl e, tr)))
   \<and>
   (case stdin of
      Inl e \<Rightarrow>
        is_Exception e \<longrightarrow>
          main env stdin =
            (Inr (),
             [Log (cross @ '' Hook error: '' @ str_exn env e) HOOK_NAME,
              Log (cross @ '' Exception type: '' @ type_name e) HOOK_NAME,
              Log (cross @ '' Exception details: '' @ str_exn env e) HOOK_NAME,
              Log (cross @ '' Full traceback:'') HOOK_NAME,
              Log (format_exc env e) HOOK_NAME])
    | Inr v \<Rightarrow> True)"
proof (rule conjI)
  show "case main_body env stdin of
      (Inr u, tr) \<Rightarrow> main env stdin = (Inr (), tr)
    | (Inl e, tr) \<Rightarrow>
        main env stdin =
          (if is_Exception e
           then (Inr (),
                 tr @ [Log (cross @ '' Hook error: '' @ str_exn env e) HOOK_NAME,
                       Log (cross @ '' Exception type: '' @ type_name e) HOOK_NAME,
                       Log (cross @ '' Exception details: '' @ str_exn env e) HOOK_NAME,
                       Log (cross @ '' Full traceback:'') HOOK_NAME,
                       Log (format_exc env e) HOOK_NAME])
           else (Inl e, tr))"
    by (simp add: main_unfold handler_log_def split: prod.splits sum.splits)
next
  show "case stdin of
      Inl e \<Rightarrow>
        is_Exception e \<longrightarrow>
          main env stdin =
            (Inr (),
             [Log (cross @ '' Hook error: '' @ str_exn env e) HOOK_NAME,
              Log (cross @ '' Exception type: '' @ type_name e) HOOK_NAME,
              Log (cross @ '' Exception details: '' @ str_exn env e) HOOK_NAME,
              Log (cross @ '' Full traceback:'') HOOK_NAME,
              Log (format_exc env e) HOOK_NAME])
    | Inr v \<Rightarrow> True"
    by (simp add: main_unfold main_body_def handler_log_def split: sum.splits)
qed

theorem main_catches_Exception_witness:
  "is_Exception JSONDecodeError \<and>
   main example_env (Inl JSONDecodeError) =
     (Inr (),
      [Log (cross @ '' Hook error: JSONDecodeError'') ''notification-hook'',
       Log (cross @ '' Exception type: JSONDecodeError'') ''notification-hook'',
       Log (cross @ '' Exception details: JSONDecodeError'') ''notification-hook'',
       Log (cross @ '' Full traceback:'') ''notification-hook'',
       Log ''Traceback (most recent call last): JSONDecodeError'' ''notification-hook'']) \<and>
   main example_env (Inr (JList [])) =
     (Inr (),
      [Log (cross @ '' Hook error: AttributeError'') ''notification-hook'',
       Log (cross @ '' Exception type: AttributeError'') ''notification-hook'',
       Log (cross @ '' Exception details: AttributeError'') ''notification-hook'',
       Log (cross @ '' Full traceback:'') ''notification-hook'',
       Log ''Traceback (most recent call last): AttributeError'' ''notification-hook''])"
proof -
  have b: "main_body example_env (Inr (JList [])) = (Inl AttributeError, [])"
    by (simp add: main_body_def)
  show ?thesis
    using main_catches_Exception [of example_env "Inl JSONDecodeError"]
      main_catches_Exception [of example_env "Inr (JList [])"] b
    by (simp add: example_env_def HOOK_NAME_def)
qed

text \<open>
  C1 as stated says that the messages built for \<open>tool-permission-request\<close> and
  \<open>prompt-idle-timeout\<close> are delivered unchanged. In the source,
  \<open>format_notification_message\<close> is called after the branch on the event type, for
  all three branches, with the event type as event name: the message built for an
  idle timeout is \<open>Claude session idle for 60s\<close> and the message delivered has the
  event name appended.
\<close>

theorem enrichment_special_counterexample:
  "fst (snd (build_idle_timeout_notification example_env
       (map_of [(''type'', JStr ''prompt-idle-timeout'')]))) = ''Claude session idle for 60s'' \<and>
   map sent_message (sent (snd (main example_env
       (Inr (JObj [(''type'', JStr ''prompt-idle-timeout'')]))))) =
     [''Claude session idle for 60s (prompt-idle-timeout)'']"
  by code_simp

text \<open>
  C1, amended. Message enrichment is applied on every path. Whenever the project
  context has a \<open>git_status\<close> and the branch on the event type yields a presentation,
  the message delivered is the message built, followed by the event name in
  parentheses when the event name is true in the sense of Python, followed by the
  git-status suffix when the git status is not \<open>clean\<close>. For the types
  \<open>tool-permission-request\<close> and \<open>prompt-idle-timeout\<close> the event name is the type, so
  the parenthesized type is always appended.
\<close>

theorem enrichment_on_every_path:
  assumes "get_project_context env (py_get (map_of kvs) ''cwd'' (JStr '''')) HOOK_NAME = Inr (JObj project)"
    and "map_of project ''git_status'' = Some git_status"
    and "dispatch env (map_of kvs) = Inr (title, body, priority, tags, event)"
  shows "map sent_message (sent (snd (main env (Inr (JObj kvs))))) =
      [body @ (if py_bool event then '' ('' @ py_str env event @ '')'' else '''')
            @ (if git_status = JStr ''clean'' then '''' else '' '' @ bullet @ '' '' @ py_str env git_status)]
    \<and> (map_of kvs ''type'' = Some (JStr ''tool-permission-request'') \<or>
        map_of kvs ''type'' = Some (JStr ''prompt-idle-timeout'')
        \<longrightarrow> map_of kvs ''type'' = Some event \<and> py_bool event)"
proof (intro conjI)
  have "format_notification_message env body event (JObj project) =
      Inr (body @ (if py_bool event then '' ('' @ py_str env event @ '')'' else '''')
            @ (if git_status = JStr ''clean'' then '''' else '' '' @ bullet @ '' '' @ py_str env git_status))"
    using assms(2) by (simp add: format_notification_message_def Let_def)
  from sent_main_body [OF assms(1) assms(3) this]
  show "map sent_message (sent (snd (main env (Inr (JObj kvs))))) =
      [body @ (if py_bool event then '' ('' @ py_str env event @ '')'' else '''')
            @ (if git_status = JStr ''clean'' then '''' else '' '' @ bullet @ '' '' @ py_str env git_status)]"
    by (simp add: sent_main)
next
  show "map_of kvs ''type'' = Some (JStr ''tool-permission-request'') \<or>
        map_of kvs ''type'' = Some (JStr ''prompt-idle-timeout'')
        \<longrightarrow> map_of kvs ''type'' = Some event \<and> py_bool event"
    using assms(3)
    by (auto simp: dispatch_def py_get_def build_idle_timeout_notification_def
        split: sum.splits prod.splits)
qed

theorem enrichment_on_every_path_witness:
  "get_project_context example_env
     (py_get (map_of [(''type'', JStr ''tool-permission-request''), (''tool_name'', JStr ''Bash'')])
        ''cwd'' (JStr '''')) HOOK_NAME = Inr (JObj [(''git_status'', JStr ''clean'')]) \<and>
   dispatch example_env
     (map_of [(''type'', JStr ''tool-permission-request''), (''tool_name'', JStr ''Bash'')]) =
     Inr (''Demo: Permission Required'', ''Claude needs permission to use Bash'', ''high'',
          [''warning'', ''key'', ''demo''], JStr ''tool-permission-request'') \<and>
   map sent_message (sent (snd (main example_env
     (Inr (JObj [(''type'', JStr ''tool-permission-request''), (''tool_name'', JStr ''Bash'')]))))) =
     [''Claude needs permission to use Bash (tool-permission-request)'']"
proof -
  let ?kvs = "[(''type'', JStr ''tool-permission-request''), (''tool_name'', JStr ''Bash'')]"
  have ctx: "get_project_context example_env (py_get (map_of ?kvs) ''cwd'' (JStr '''')) HOOK_NAME
      = Inr (JObj [(''git_status'', JStr ''clean'')])"
    by (simp add: example_env_def)
  have git: "map_of [(''git_status'', JStr ''clean'')] ''git_status'' = Some (JStr ''clean'')"
    by simp
  have disp: "dispatch example_env (map_of ?kvs) =
     Inr (''Demo: Permission Required'', ''Claude needs permission to use Bash'', ''high'',
          [''warning'', ''key'', ''demo''], JStr ''tool-permission-request'')"
    by (simp add: dispatch_def build_tool_permission_notification_def approval_lines_def
        py_get_def example_env_def)
  show ?thesis
    using enrichment_on_every_path [OF ctx git disp] ctx disp
    by simp
qed

lemma task_completed_keywords:
  "\<not> py_in ''permission'' (py_lower ''Task completed successfully'')"
  "\<not> py_in ''approval'' (py_lower ''Task completed successfully'')"
  "\<not> py_in ''error'' (py_lower ''Task completed successfully'')"
  "\<not> py_in ''failed'' (py_lower ''Task completed successfully'')"
  "\<not> py_in ''waiting'' (py_lower ''Task completed successfully'')"
  "\<not> py_in ''idle'' (py_lower ''Task completed successfully'')"
  "\<not> py_in ''blocked'' (py_lower ''Task completed successfully'')"
  "\<not> py_in ''hook'' (py_lower ''Task completed successfully'')"
  "py_in ''completed'' (py_lower ''Task completed successfully'')"
  by code_simp+

lemma dispatch_task_completed:
  "dispatch env (map_of [(''message'', JStr ''Task completed successfully''), (''cwd'', JStr ''/tmp'')]) =
     Inr (PROJECT_TITLE env @ '': Task Completed'', ''Task completed successfully'', ''default'',
          [''white_check_mark'', ''gear'', PROJECT_TAG env], JStr ''notification'')"
  by (simp add: dispatch_def py_get_def analyze_message_content_def task_completed_keywords)

text \<open>
  C7. On the generic path, when the field \<open>message\<close> is absent, the raw text is
  \<open>Codex event: <hook_event_name>\<close>, where the event name is the field \<open>hook_event_name\<close>
  when present, else the field \<open>type\<close> when present and true in the sense of Python,
  else \<open>notification\<close>; the presentation is the classification of that raw text. And
  the input with the message \<open>Task completed successfully\<close>, the working directory
  \<open>/tmp\<close> and nothing else, in a project with a clean git status, is delivered with the
  title \<open><ProjectTitle>: Task Completed\<close>, the message
  \<open>Task completed successfully (notification)\<close> and the priority \<open>default\<close>.
\<close>

theorem generic_event_name_fallback:
  "(hook_input ''message'' = None \<and>
    py_get hook_input ''type'' (JStr '''') \<noteq> JStr ''tool-permission-request'' \<and>
    py_get hook_input ''type'' (JStr '''') \<noteq> JStr ''prompt-idle-timeout'' \<longrightarrow>
      (let event =
             (case hook_input ''hook_event_name'' of
                Some name \<Rightarrow> name
              | None \<Rightarrow>
                  (case hook_input ''type'' of
                     Some ty \<Rightarrow> if py_bool ty then ty else JStr ''notification''
                   | None \<Rightarrow> JStr ''notification''));
           raw_message = ''Codex event: '' @ py_str env event
       in dispatch env hook_input =
            (case analyze_message_content env raw_message event of
               (priority, title, tags) \<Rightarrow> Inr (title, raw_message, priority, tags, event))))
   \<and>
   (get_project_context env (JStr ''/tmp'') HOOK_NAME = Inr (JObj project) \<and>
    map_of project ''git_status'' = Some (JStr ''clean'') \<longrightarrow>
      map (\<lambda>a. (sent_title a, sent_message a, sent_priority a))
        (sent (snd (main env (Inr (JObj [(''message'', JStr ''Task completed successfully''),
                                         (''cwd'', JStr ''/tmp'')]))))) =
        [(PROJECT_TITLE env @ '': Task Completed'',
          ''Task completed successfully (notification)'', ''default'')])"
proof (rule conjI)
  show "hook_input ''message'' = None \<and>
    py_get hook_input ''type'' (JStr '''') \<noteq> JStr ''tool-permission-request'' \<and>
    py_get hook_input ''type'' (JStr '''') \<noteq> JStr ''prompt-idle-timeout'' \<longrightarrow>
      (let event =
             (case hook_input ''hook_event_name'' of
                Some name \<Rightarrow> name
              | None \<Rightarrow>
                  (case hook_input ''type'' of
                     Some ty \<Rightarrow> if py_bool ty then ty else JStr ''notification''
                   | None \<Rightarrow> JStr ''notification''));
           raw_message = ''Codex event: '' @ py_str env event
       in dispatch env hook_input =
            (case analyze_message_content env raw_message event of
               (priority, title, tags) \<Rightarrow> Inr (title, raw_message, priority, tags, event)))"
    by (simp add: dispatch_def py_get_def Let_def split: option.splits prod.splits)
next
  show "get_project_context env (JStr ''/tmp'') HOOK_NAME = Inr (JObj project) \<and>
    map_of project ''git_status'' = Some (JStr ''clean'') \<longrightarrow>
      map (\<lambda>a. (sent_title a, sent_message a, sent_priority a))
        (sent (snd (main env (Inr (JObj [(''message'', JStr ''Task completed successfully''),
                                         (''cwd'', JStr ''/tmp'')]))))) =
        [(PROJECT_TITLE env @ '': Task Completed'',
          ''Task completed successfully (notification)'', ''default'')]"
  proof (intro impI, elim conjE)
    let ?kvs = "[(''message'', JStr ''Task completed successfully''), (''cwd'', JStr ''/tmp'')]"
    assume ctx: "get_project_context env (JStr ''/tmp'') HOOK_NAME = Inr (JObj project)"
      and git: "map_of project ''git_status'' = Some (JStr ''clean'')"
    have ctx': "get_project_context env (py_get (map_of ?kvs) ''cwd'' (JStr '''')) HOOK_NAME
        = Inr (JObj project)"
      using ctx by (simp add: py_get_def)
    have fmt: "format_notification_message env ''Task completed successfully'' (JStr ''notification'')
        (JObj project) = Inr ''Task completed successfully (notification)''"
      using git by (simp add: format_notification_message_def)
    show "map (\<lambda>a. (sent_title a, sent_message a, sent_priority a))
        (sent (snd (main env (Inr (JObj ?kvs))))) =
        [(PROJECT_TITLE env @ '': Task Completed'',
          ''Task completed successfully (notification)'', ''default'')]"
      using sent_main_body [OF ctx' dispatch_task_completed fmt]
      by (simp add: sent_main)
  qed
qed

theorem generic_event_name_fallback_witness:
  "dispatch example_env (map_of [(''type'', JStr ''agent-turn-complete'')]) =
     Inr (''Demo: Notification'', ''Codex event: agent-turn-complete'', ''default'',
          [''bell'', ''info'', ''demo''], JStr ''agent-turn-complete'') \<and>
   dispatch example_env (map_of [(''hook_event_name'', JStr ''Stop''), (''type'', JStr ''other'')]) =
     Inr (''Demo: Notification'', ''Codex event: Stop'', ''default'',
          [''bell'', ''info'', ''demo''], JStr ''Stop'') \<and>
   dispatch example_env (map_of []) =
     Inr (''Demo: Notification'', ''Codex event: notification'', ''default'',
          [''bell'', ''info'', ''demo''], JStr ''notification'') \<and>
   map (\<lambda>a. (sent_title a, sent_message a, sent_priority a))
     (sent (snd (main example_env (Inr (JObj [(''message'', JStr ''Task completed successfully''),
                                              (''cwd'', JStr ''/tmp'')]))))) =
     [(''Demo: Task Completed'', ''Task completed successfully (notification)'', ''default'')]"
proof -
  have a1: "analyze_message_content example_env ''Codex event: agent-turn-complete''
      (JStr ''agent-turn-complete'') = (''default'', ''Demo: Notification'', [''bell'', ''info'', ''demo''])"
    by code_simp
  have a2: "analyze_message_content example_env ''Codex event: Stop''
      (JStr ''Stop'') = (''default'', ''Demo: Notification'', [''bell'', ''info'', ''demo''])"
    by code_simp
  have a3: "analyze_message_content example_env ''Codex event: notification''
      (JStr ''notification'') = (''default'', ''Demo: Notification'', [''bell'', ''info'', ''demo''])"
    by code_simp
  have ctx: "get_project_context example_env (JStr ''/tmp'') HOOK_NAME =
      Inr (JObj [(''git_status'', JStr ''clean'')])"
    by (simp add: example_env_def)
  have pt: "PROJECT_TITLE example_env = ''Demo''"
    by (simp add: example_env_def)
  show ?thesis
    using generic_event_name_fallback
            [of "map_of [(''type'', JStr ''agent-turn-complete'')]" example_env
                "[(''git_status'', JStr ''clean'')]"]
          generic_event_name_fallback
            [of "map_of [(''hook_event_name'', JStr ''Stop''), (''type'', JStr ''other'')]" example_env
                "[(''git_status'', JStr ''clean'')]"]
          generic_event_name_fallback
            [of "map_of []" example_env "[(''git_status'', JStr ''clean'')]"]
          ctx
    by (simp add: py_get_def a1 a2 a3 pt Let_def)
qed

end
